theory Spec2Isabelle
  imports Main "HOL-Library.Word"
begin

section \<open>The type tag of a Goque data directory (file.go)\<close>

subsection \<open>goqueType and its constants\<close>

text \<open>\<^verbatim>\<open>type goqueType uint8\<close>, with the four constants numbered by \<^verbatim>\<open>iota\<close>.\<close>

type_synonym byte = "8 word"
type_synonym goqueType = "8 word"

definition goqueStack :: goqueType where "goqueStack = 0"
definition goqueQueue :: goqueType where "goqueQueue = 1"
definition goquePriorityQueue :: goqueType where "goquePriorityQueue = 2"
definition goquePrefixQueue :: goqueType where "goquePrefixQueue = 3"

subsection \<open>Go error values\<close>

text \<open>
  The error values the program looks at: the sentinels of package os and io, a bare
  \<^verbatim>\<open>syscall.Errno\<close>, and the three wrappers \<^verbatim>\<open>*os.PathError\<close> (Op, Path, Err),
  \<^verbatim>\<open>*os.LinkError\<close> (Op, Old, New, Err) and \<^verbatim>\<open>*os.SyscallError\<close> (Syscall, Err).
  A nil error is \<open>None\<close> of \<open>error option\<close>.
\<close>

datatype error =
    ErrInvalid
  | ErrPermission
  | ErrExist
  | ErrNotExist
  | ErrClosed
  | EOF
  | Errno nat
  | PathError string string error
  | LinkError string string string error
  | SyscallError string error

abbreviation ENOENT :: nat where "ENOENT \<equiv> 2"
abbreviation EBADF :: nat where "EBADF \<equiv> 9"
abbreviation EISDIR :: nat where "EISDIR \<equiv> 21"
abbreviation EINVAL :: nat where "EINVAL \<equiv> 22"

text \<open>
  \<^verbatim>\<open>os.IsNotExist\<close>: the error is unwrapped once, through a PathError, LinkError or
  SyscallError only, and what is left is compared with \<^verbatim>\<open>ErrNotExist\<close> and
  \<^verbatim>\<open>ENOENT\<close>.
\<close>

fun underlyingError :: "error \<Rightarrow> error" where
  "underlyingError (PathError op p e) = e"
| "underlyingError (LinkError op old new e) = e"
| "underlyingError (SyscallError call e) = e"
| "underlyingError e = e"

definition IsNotExist :: "error \<Rightarrow> bool" where
  "IsNotExist err = (underlyingError err = ErrNotExist \<or> underlyingError err = Errno ENOENT)"

subsection \<open>The file system the program runs against\<close>

text \<open>
  A node is a regular file, named by its directory and its entry name (what
  \<^verbatim>\<open>filepath.Join\<close> puts together), or a directory. The world holds the directories
  with their regular files, the faults the host is going to raise (one entry per
  call still to come: \<open>None\<close> lets the call proceed, \<open>Some e\<close> makes it fail with
  \<open>e\<close>; past the end of the list nothing fails), and the log of the calls made so
  far, each with its outcome.
\<close>

datatype node = File string string | Dir string

datatype handle = Handle node

datatype oflag = O_RDONLY | O_RDWR | O_CREATE | O_TRUNC

datatype call =
    Open node
  | Create node
  | Read node
  | Write node "byte list"
  | Sync node
  | Close node
  | Rename node node

datatype event = Ev call "error option"

record world =
  dirs :: "string \<rightharpoonup> (string \<rightharpoonup> byte list)"
  faults :: "error option list"
  trace :: "event list"

definition filepath_Join :: "string \<Rightarrow> string \<Rightarrow> string \<times> string" where
  "filepath_Join dir name = (dir, name)"

definition pathString :: "string \<times> string \<Rightarrow> string" where
  "pathString p = fst p @ ''/'' @ snd p"

definition peek :: "error option list \<Rightarrow> error option" where
  "peek fs = (case fs of [] \<Rightarrow> None | x # xs \<Rightarrow> x)"

definition pop :: "world \<Rightarrow> world" where
  "pop w = w\<lparr>faults := tl (faults w)\<rparr>"

definition next_fault :: "world \<Rightarrow> error option \<times> world" where
  "next_fault w = (peek (faults w), pop w)"

definition log :: "call \<Rightarrow> error option \<Rightarrow> world \<Rightarrow> world" where
  "log c r w = w\<lparr>trace := trace w @ [Ev c r]\<rparr>"

definition lookup :: "world \<Rightarrow> string \<Rightarrow> string \<Rightarrow> byte list option" where
  "lookup w d n = (case dirs w d of None \<Rightarrow> None | Some ents \<Rightarrow> ents n)"

definition store :: "string \<Rightarrow> string \<Rightarrow> byte list \<Rightarrow> world \<Rightarrow> world" where
  "store d n bs w =
     (case dirs w d of None \<Rightarrow> w
      | Some ents \<Rightarrow> w\<lparr>dirs := (dirs w)(d \<mapsto> ents(n \<mapsto> bs))\<rparr>)"

definition unlink :: "string \<Rightarrow> string \<Rightarrow> world \<Rightarrow> world" where
  "unlink d n w =
     (case dirs w d of None \<Rightarrow> w
      | Some ents \<Rightarrow> w\<lparr>dirs := (dirs w)(d \<mapsto> ents(n := None))\<rparr>)"

text \<open>
  \<^verbatim>\<open>os.OpenFile(name, flag, perm)\<close> on the path of a regular file. Without
  \<^verbatim>\<open>O_CREATE\<close> a missing entry is ENOENT; with it the entry is created empty in a
  directory that is there. An entry that is there keeps its bytes unless
  \<^verbatim>\<open>O_TRUNC\<close> is given.
\<close>

definition os_OpenFile :: "string \<times> string \<Rightarrow> oflag list \<Rightarrow> world \<Rightarrow> (error + handle) \<times> world" where
  "os_OpenFile p flags w0 =
     (let (flt, w) = next_fault w0;
          nd = File (fst p) (snd p);
          c = (if O_CREATE \<in> set flags then Create nd else Open nd);
          enoent = PathError ''open'' (pathString p) (Errno ENOENT)
      in case flt of
           Some e \<Rightarrow> (Inl e, log c (Some e) w)
         | None \<Rightarrow>
             (case lookup w (fst p) (snd p) of
                Some bs \<Rightarrow>
                  (Inr (Handle nd),
                   log c None (if O_TRUNC \<in> set flags then store (fst p) (snd p) [] w else w))
              | None \<Rightarrow>
                  if O_CREATE \<in> set flags \<and> dirs w (fst p) \<noteq> None
                  then (Inr (Handle nd), log c None (store (fst p) (snd p) [] w))
                  else (Inl enoent, log c (Some enoent) w)))"

text \<open>\<^verbatim>\<open>os.Open(name)\<close> on the path of a directory.\<close>

definition os_Open :: "string \<Rightarrow> world \<Rightarrow> (error + handle) \<times> world" where
  "os_Open path w0 =
     (let (flt, w) = next_fault w0;
          c = Open (Dir path);
          enoent = PathError ''open'' path (Errno ENOENT)
      in case flt of
           Some e \<Rightarrow> (Inl e, log c (Some e) w)
         | None \<Rightarrow>
             (case dirs w path of
                None \<Rightarrow> (Inl enoent, log c (Some enoent) w)
              | Some ents \<Rightarrow> (Inr (Handle (Dir path)), log c None w)))"

text \<open>
  \<^verbatim>\<open>f.Write(b)\<close> and \<^verbatim>\<open>f.Read(b)\<close>. Every handle of this program transfers at
  most once, right after it was opened, so the transfer is at offset 0: the bytes
  written replace the first bytes of the file and leave the rest of it, and a read
  returns at most \<open>n\<close> bytes from the start, \<^verbatim>\<open>io.EOF\<close> when there is none.
\<close>

definition File_Write :: "handle \<Rightarrow> byte list \<Rightarrow> world \<Rightarrow> (nat \<times> error option) \<times> world" where
  "File_Write f b w0 =
     (case f of Handle nd \<Rightarrow>
        (let (flt, w) = next_fault w0;
             c = Write nd b;
             ebadf = PathError ''write'' [] (Errno EBADF)
         in case flt of
              Some e \<Rightarrow> ((0, Some e), log c (Some e) w)
            | None \<Rightarrow>
                (case nd of
                   Dir d \<Rightarrow> ((0, Some ebadf), log c (Some ebadf) w)
                 | File d n \<Rightarrow>
                     (case lookup w d n of
                        None \<Rightarrow> ((0, Some ebadf), log c (Some ebadf) w)
                      | Some old \<Rightarrow>
                          ((length b, None), log c None (store d n (b @ drop (length b) old) w))))))"

definition File_Read :: "handle \<Rightarrow> nat \<Rightarrow> world \<Rightarrow> (error + byte list) \<times> world" where
  "File_Read f n w0 =
     (case f of Handle nd \<Rightarrow>
        (let (flt, w) = next_fault w0;
             c = Read nd;
             eisdir = PathError ''read'' [] (Errno EISDIR);
             ebadf = PathError ''read'' [] (Errno EBADF)
         in case flt of
              Some e \<Rightarrow> (Inl e, log c (Some e) w)
            | None \<Rightarrow>
                (case nd of
                   Dir d \<Rightarrow> (Inl eisdir, log c (Some eisdir) w)
                 | File d nm \<Rightarrow>
                     (case lookup w d nm of
                        None \<Rightarrow> (Inl ebadf, log c (Some ebadf) w)
                      | Some bs \<Rightarrow>
                          if take n bs = [] then (Inl EOF, log c (Some EOF) w)
                          else (Inr (take n bs), log c None w)))))"

text \<open>\<^verbatim>\<open>f.Sync()\<close> and \<^verbatim>\<open>f.Close()\<close>: they change no directory and no file content.\<close>

definition File_Sync :: "handle \<Rightarrow> world \<Rightarrow> error option \<times> world" where
  "File_Sync f w0 =
     (case f of Handle nd \<Rightarrow>
        (let (flt, w) = next_fault w0 in (flt, log (Sync nd) flt w)))"

definition File_Close :: "handle \<Rightarrow> world \<Rightarrow> error option \<times> world" where
  "File_Close f w0 =
     (case f of Handle nd \<Rightarrow>
        (let (flt, w) = next_fault w0 in (flt, log (Close nd) flt w)))"

text \<open>
  \<^verbatim>\<open>os.Rename(oldpath, newpath)\<close> between two regular files: the old entry goes away
  and the new name holds its bytes, replacing what was there.
\<close>

definition os_Rename :: "string \<times> string \<Rightarrow> string \<times> string \<Rightarrow> world \<Rightarrow> error option \<times> world" where
  "os_Rename old new w0 =
     (let (flt, w) = next_fault w0;
          c = Rename (File (fst old) (snd old)) (File (fst new) (snd new));
          enoent = LinkError ''rename'' (pathString old) (pathString new) (Errno ENOENT)
      in case flt of
           Some e \<Rightarrow> (Some e, log c (Some e) w)
         | None \<Rightarrow>
             (case lookup w (fst old) (snd old) of
                None \<Rightarrow> (Some enoent, log c (Some enoent) w)
              | Some bs \<Rightarrow>
                  (case dirs w (fst new) of
                     None \<Rightarrow> (Some enoent, log c (Some enoent) w)
                   | Some ents \<Rightarrow>
                       (None, log c None (store (fst new) (snd new) bs (unlink (fst old) (snd old) w))))))"

subsection \<open>syncDir\<close>

text \<open>
  The three tests on the error of \<^verbatim>\<open>f.Sync()\<close>, in the order of the source; the
  deferred \<^verbatim>\<open>f.Close()\<close> runs last on every path after the open, its error dropped.
\<close>

definition isSyscallErrorEINVAL :: "error \<Rightarrow> bool" where
  "isSyscallErrorEINVAL err = (case err of SyscallError call e \<Rightarrow> e = Errno EINVAL | _ \<Rightarrow> False)"

definition isPathErrorEINVAL :: "error \<Rightarrow> bool" where
  "isPathErrorEINVAL err = (case err of PathError op p e \<Rightarrow> e = Errno EINVAL | _ \<Rightarrow> False)"

definition syncDir :: "string \<Rightarrow> world \<Rightarrow> error option \<times> world" where
  "syncDir path w0 =
     (case os_Open path w0 of
        (Inl err, w1) \<Rightarrow> (Some err, w1)
      | (Inr f, w1) \<Rightarrow>
          (let (r, w2) =
                 (case File_Sync f w1 of
                    (Some err, w2) \<Rightarrow>
                      (if err = ErrInvalid then None
                       else if isSyscallErrorEINVAL err then None
                       else if isPathErrorEINVAL err then None
                       else Some err, w2)
                  | (None, w2) \<Rightarrow> (None, w2));
               (_, w3) = File_Close f w2
           in (r, w3)))"

subsection \<open>checkGoqueType\<close>

definition compareTypes :: "goqueType \<Rightarrow> goqueType \<Rightarrow> bool" where
  "compareTypes filegt gt =
     (if filegt = gt then True
      else if filegt = goqueStack \<and> gt = goqueQueue then True
      else if filegt = goqueQueue \<and> gt = goqueStack then True
      else False)"

definition checkGoqueType :: "string \<Rightarrow> goqueType \<Rightarrow> world \<Rightarrow> (bool \<times> error option) \<times> world" where
  "checkGoqueType dataDir gt w0 =
     (let path = filepath_Join dataDir ''GOQUE'' in
      case os_OpenFile path [O_RDONLY] w0 of
        (Inl err, w1) \<Rightarrow>
          if IsNotExist err then
            (let tempPath = filepath_Join dataDir ''GOQUE.tmp'' in
             case os_OpenFile tempPath [O_RDWR, O_CREATE] w1 of
               (Inl err, w2) \<Rightarrow> ((False, Some err), w2)
             | (Inr f, w2) \<Rightarrow>
                 (let gtb = (replicate 1 0)[0 := gt] in
                  case File_Write f gtb w2 of
                    ((_, Some err), w3) \<Rightarrow>
                      (let (_, w4) = File_Close f w3 in ((False, Some err), w4))
                  | ((_, None), w3) \<Rightarrow>
                      (case File_Sync f w3 of
                         (Some err, w4) \<Rightarrow>
                           (let (_, w5) = File_Close f w4 in ((False, Some err), w5))
                       | (None, w4) \<Rightarrow>
                           (case File_Close f w4 of
                              (Some err, w5) \<Rightarrow> ((False, Some err), w5)
                            | (None, w5) \<Rightarrow>
                                (case os_Rename tempPath path w5 of
                                   (Some err, w6) \<Rightarrow> ((False, Some err), w6)
                                 | (None, w6) \<Rightarrow>
                                     (case syncDir dataDir w6 of
                                        (Some err, w7) \<Rightarrow> ((False, Some err), w7)
                                      | (None, w7) \<Rightarrow> ((True, None), w7)))))))
          else ((False, Some err), w1)
      | (Inr f, w1) \<Rightarrow>
          (let fb = replicate 1 (0 :: byte) in
           case File_Read f (length fb) w1 of
             (Inl err, w2) \<Rightarrow>
               (let (_, w3) = File_Close f w2 in ((False, Some err), w3))
           | (Inr got, w2) \<Rightarrow>
               (let filegt = hd (got @ drop (length got) fb);
                    (_, w3) = File_Close f w2
                in ((compareTypes filegt gt, None), w3))))"

subsection \<open>Vocabulary of the properties\<close>

text \<open>The four defined tags.\<close>

definition validTags :: "goqueType set" where
  "validTags = {goqueStack, goqueQueue, goquePriorityQueue, goquePrefixQueue}"

text \<open>
  The host does not report an entry that is there as missing: the fault waiting for
  the next call, if any, is not a not-found error.
\<close>

definition truthful :: "world \<Rightarrow> bool" where
  "truthful w = (case peek (faults w) of None \<Rightarrow> True | Some e \<Rightarrow> \<not> IsNotExist e)"

text \<open>The events a run has added to the log, and the call of an event.\<close>

definition new_events :: "world \<Rightarrow> world \<Rightarrow> event list" where
  "new_events w w' = drop (length (trace w)) (trace w')"

fun call_of :: "event \<Rightarrow> call" where
  "call_of (Ev c r) = c"

text \<open>The calls that write to the file system: creating, writing and renaming.\<close>

fun is_write :: "call \<Rightarrow> bool" where
  "is_write (Create nd) = True"
| "is_write (Write nd b) = True"
| "is_write (Rename old new) = True"
| "is_write c = False"

text \<open>
  An error of the flush that says the operation is not supported on the handle:
  \<^verbatim>\<open>os.ErrInvalid\<close>, or \<^verbatim>\<open>EINVAL\<close> inside a SyscallError or a PathError.
\<close>

fun sync_unsupported :: "error \<Rightarrow> bool" where
  "sync_unsupported ErrInvalid = True"
| "sync_unsupported (SyscallError call (Errno n)) = (n = EINVAL)"
| "sync_unsupported (PathError op p (Errno n)) = (n = EINVAL)"
| "sync_unsupported e = False"

text \<open>A left-over \<^verbatim>\<open>GOQUE.tmp\<close>, if there is one, holds at most one byte.\<close>

definition short_temp :: "world \<Rightarrow> string \<Rightarrow> bool" where
  "short_temp w d =
     (case lookup w d ''GOQUE.tmp'' of None \<Rightarrow> True | Some bs \<Rightarrow> length bs \<le> 1)"

text \<open>The next \<open>n\<close> calls meet no fault.\<close>

definition quiet :: "nat \<Rightarrow> world \<Rightarrow> bool" where
  "quiet n w = list_all (\<lambda>x. x = None) (take n (faults w))"

text \<open>The attempt to open the marker file fails with a not-found error.\<close>

definition marker_not_found :: "string \<Rightarrow> world \<Rightarrow> bool" where
  "marker_not_found d w =
     (case fst (os_OpenFile (filepath_Join d ''GOQUE'') [O_RDONLY] w) of
        Inl e \<Rightarrow> IsNotExist e
      | Inr f \<Rightarrow> False)"

text \<open>
  A call was made, a call was made and succeeded, and the events before the first
  time a call was made.
\<close>

definition performed :: "call \<Rightarrow> event list \<Rightarrow> bool" where
  "performed c evs = (c \<in> set (map call_of evs))"

definition succeeded :: "call \<Rightarrow> event list \<Rightarrow> bool" where
  "succeeded c evs = (Ev c None \<in> set evs)"

definition before :: "call \<Rightarrow> event list \<Rightarrow> event list" where
  "before c evs = takeWhile (\<lambda>e. call_of e \<noteq> c) evs"

text \<open>A world with the one data directory \<open>''data''\<close>, for the concrete runs.\<close>

definition mkWorld :: "(string \<rightharpoonup> byte list) \<Rightarrow> error option list \<Rightarrow> world" where
  "mkWorld ents fs = \<lparr>dirs = [''data'' \<mapsto> ents], faults = fs, trace = []\<rparr>"

section \<open>Properties\<close>

lemmas model_defs =
  checkGoqueType_def syncDir_def os_OpenFile_def os_Open_def File_Write_def File_Read_def
  File_Sync_def File_Close_def os_Rename_def next_fault_def pop_def log_def lookup_def store_def
  unlink_def filepath_Join_def pathString_def compareTypes_def Let_def

lemmas run_defs = model_defs peek_def IsNotExist_def mkWorld_def new_events_def
  goqueStack_def goqueQueue_def goquePriorityQueue_def goquePrefixQueue_def

subsection \<open>The worlds the calls leave behind\<close>

lemma log_simps [simp]:
  "dirs (log c r w) = dirs w" "faults (log c r w) = faults w" "trace (log c r w) = trace w @ [Ev c r]"
  by (simp_all add: log_def)

lemma pop_simps [simp]:
  "dirs (pop w) = dirs w" "faults (pop w) = tl (faults w)" "trace (pop w) = trace w"
  by (simp_all add: pop_def)

lemma store_simps [simp]:
  "faults (store d n bs w) = faults w" "trace (store d n bs w) = trace w"
  "(dirs (store d n bs w) d' = None) = (dirs w d' = None)"
  by (simp_all add: store_def split: option.splits)

lemma unlink_simps [simp]:
  "faults (unlink d n w) = faults w" "trace (unlink d n w) = trace w"
  "(dirs (unlink d n w) d' = None) = (dirs w d' = None)"
  by (simp_all add: unlink_def split: option.splits)

lemma lookup_log [simp]: "lookup (log c r w) d n = lookup w d n"
  by (simp add: lookup_def)

lemma lookup_pop [simp]: "lookup (pop w) d n = lookup w d n"
  by (simp add: lookup_def)

lemma lookup_store [simp]:
  "lookup (store d n bs w) d' n' = (if d' = d \<and> n' = n \<and> dirs w d \<noteq> None then Some bs else lookup w d' n')"
  by (auto simp: lookup_def store_def split: option.splits)

lemma lookup_unlink [simp]:
  "lookup (unlink d n w) d' n' = (if d' = d \<and> n' = n then None else lookup w d' n')"
  by (auto simp: lookup_def unlink_def split: option.splits)

lemma lookup_Some_dirs: "lookup w d n = Some bs \<Longrightarrow> dirs w d \<noteq> None"
  by (auto simp: lookup_def split: option.splits)

text \<open>What each call says about the world it started in, read off its result.\<close>

lemma open_rd_Inl:
  "os_OpenFile (d, n) [O_RDONLY] w = (Inl e, w') \<Longrightarrow>
     w' = log (Open (File d n)) (Some e) (pop w)
     \<and> (peek (faults w) = Some e
        \<or> (peek (faults w) = None \<and> lookup w d n = None
           \<and> e = PathError ''open'' (pathString (d, n)) (Errno ENOENT)))"
  by (auto simp: os_OpenFile_def next_fault_def Let_def split: option.splits if_splits)

lemma open_rd_Inr:
  "os_OpenFile (d, n) [O_RDONLY] w = (Inr f, w') \<Longrightarrow>
     f = Handle (File d n) \<and> w' = log (Open (File d n)) None (pop w)
     \<and> peek (faults w) = None \<and> lookup w d n \<noteq> None"
  by (auto simp: os_OpenFile_def next_fault_def Let_def split: option.splits if_splits)

lemma create_Inl:
  "os_OpenFile (d, n) [O_RDWR, O_CREATE] w = (Inl e, w') \<Longrightarrow>
     w' = log (Create (File d n)) (Some e) (pop w)
     \<and> (peek (faults w) = Some e \<or> (peek (faults w) = None \<and> dirs w d = None))"
  by (auto simp: os_OpenFile_def next_fault_def Let_def split: option.splits if_splits)

lemma create_Inr:
  "os_OpenFile (d, n) [O_RDWR, O_CREATE] w = (Inr f, w') \<Longrightarrow>
     f = Handle (File d n) \<and> peek (faults w) = None \<and> dirs w d \<noteq> None
     \<and> w' = log (Create (File d n)) None
              (if lookup w d n = None then store d n [] (pop w) else pop w)"
  by (auto simp: os_OpenFile_def next_fault_def Let_def split: option.splits if_splits dest: lookup_Some_dirs)

lemma write_Some:
  "File_Write (Handle (File d n)) b w = ((k, Some e), w') \<Longrightarrow>
     w' = log (Write (File d n) b) (Some e) (pop w)
     \<and> (peek (faults w) = Some e \<or> (peek (faults w) = None \<and> lookup w d n = None))"
  by (auto simp: File_Write_def next_fault_def Let_def split: option.splits if_splits)

lemma write_None:
  "File_Write (Handle (File d n)) b w = ((k, None), w') \<Longrightarrow>
     peek (faults w) = None
     \<and> (\<exists>old. lookup w d n = Some old
          \<and> w' = log (Write (File d n) b) None (store d n (b @ drop (length b) old) (pop w)))"
  by (auto simp: File_Write_def next_fault_def Let_def split: option.splits if_splits)

lemma read_Inl:
  "File_Read (Handle (File d n)) k w = (Inl e, w') \<Longrightarrow>
     w' = log (Read (File d n)) (Some e) (pop w)
     \<and> (peek (faults w) = Some e
        \<or> (peek (faults w) = None
           \<and> (case lookup w d n of None \<Rightarrow> True | Some bs \<Rightarrow> take k bs = [] \<and> e = EOF)))"
  by (auto simp: File_Read_def next_fault_def Let_def split: option.splits if_splits)

lemma read_Inr:
  "File_Read (Handle (File d n)) k w = (Inr got, w') \<Longrightarrow>
     peek (faults w) = None \<and> w' = log (Read (File d n)) None (pop w)
     \<and> (\<exists>bs. lookup w d n = Some bs \<and> got = take k bs \<and> got \<noteq> [])"
  by (auto simp: File_Read_def next_fault_def Let_def split: option.splits if_splits)

lemma sync_eq:
  "File_Sync (Handle nd) w = (r, w') \<Longrightarrow> r = peek (faults w) \<and> w' = log (Sync nd) r (pop w)"
  by (auto simp: File_Sync_def next_fault_def Let_def)

lemma close_eq:
  "File_Close (Handle nd) w = (r, w') \<Longrightarrow> r = peek (faults w) \<and> w' = log (Close nd) r (pop w)"
  by (auto simp: File_Close_def next_fault_def Let_def)

lemma rename_Some:
  "os_Rename (d, a) (d', b) w = (Some e, w') \<Longrightarrow>
     w' = log (Rename (File d a) (File d' b)) (Some e) (pop w)
     \<and> (peek (faults w) = Some e
        \<or> (peek (faults w) = None \<and> (lookup w d a = None \<or> dirs w d' = None)))"
  by (auto simp: os_Rename_def next_fault_def Let_def split: option.splits if_splits)

lemma rename_None:
  "os_Rename (d, a) (d', b) w = (None, w') \<Longrightarrow>
     peek (faults w) = None \<and> dirs w d' \<noteq> None
     \<and> (\<exists>bs. lookup w d a = Some bs
          \<and> w' = log (Rename (File d a) (File d' b)) None (store d' b bs (unlink d a (pop w))))"
  by (auto simp: os_Rename_def next_fault_def Let_def split: option.splits if_splits)

lemma sync_unsupported_iff:
  "sync_unsupported e = (e = ErrInvalid \<or> isSyscallErrorEINVAL e \<or> isPathErrorEINVAL e)"
  by (cases e rule: sync_unsupported.cases) (auto simp: isSyscallErrorEINVAL_def isPathErrorEINVAL_def)

lemma syncDir_Some:
  "syncDir d w = (Some e, w') \<Longrightarrow>
     (w' = log (Open (Dir d)) (Some e) (pop w)
      \<and> (peek (faults w) = Some e \<or> (peek (faults w) = None \<and> dirs w d = None)))
     \<or> (peek (faults w) = None \<and> peek (tl (faults w)) = Some e \<and> \<not> sync_unsupported e
        \<and> w' = log (Close (Dir d)) (peek (tl (tl (faults w))))
                 (pop (log (Sync (Dir d)) (Some e) (pop (log (Open (Dir d)) None (pop w))))))"
  by (auto simp: syncDir_def os_Open_def File_Sync_def File_Close_def next_fault_def Let_def
      sync_unsupported_iff split: option.splits if_splits)

lemma syncDir_None:
  "syncDir d w = (None, w') \<Longrightarrow>
     peek (faults w) = None \<and> dirs w d \<noteq> None
     \<and> (case peek (tl (faults w)) of None \<Rightarrow> True | Some e \<Rightarrow> sync_unsupported e)
     \<and> w' = log (Close (Dir d)) (peek (tl (tl (faults w))))
              (pop (log (Sync (Dir d)) (peek (tl (faults w))) (pop (log (Open (Dir d)) None (pop w)))))"
  by (auto simp: syncDir_def os_Open_def File_Sync_def File_Close_def next_fault_def Let_def
      sync_unsupported_iff split: option.splits if_splits)

lemmas call_facts = open_rd_Inl open_rd_Inr create_Inl create_Inr write_Some write_None
  read_Inl read_Inr sync_eq close_eq rename_Some rename_None syncDir_Some syncDir_None

text \<open>The same, for the log alone.\<close>

lemma open_rd_Inl_tr:
  "os_OpenFile (d, n) [O_RDONLY] w = (Inl e, w') \<Longrightarrow>
     trace w' = trace w @ [Ev (Open (File d n)) (Some e)]"
  by (drule open_rd_Inl) simp

lemma open_rd_Inr_tr:
  "os_OpenFile (d, n) [O_RDONLY] w = (Inr f, w') \<Longrightarrow>
     f = Handle (File d n) \<and> trace w' = trace w @ [Ev (Open (File d n)) None]"
  by (drule open_rd_Inr) simp

lemma create_Inl_tr:
  "os_OpenFile (d, n) [O_RDWR, O_CREATE] w = (Inl e, w') \<Longrightarrow>
     trace w' = trace w @ [Ev (Create (File d n)) (Some e)]"
  by (drule create_Inl) simp

lemma create_Inr_tr:
  "os_OpenFile (d, n) [O_RDWR, O_CREATE] w = (Inr f, w') \<Longrightarrow>
     f = Handle (File d n) \<and> trace w' = trace w @ [Ev (Create (File d n)) None]"
  by (drule create_Inr) simp

lemma write_tr:
  "File_Write (Handle (File d n)) b w = ((k, r), w') \<Longrightarrow>
     trace w' = trace w @ [Ev (Write (File d n) b) r]"
  by (cases r) (auto dest!: write_Some write_None)

lemma read_Inl_tr:
  "File_Read (Handle (File d n)) k w = (Inl e, w') \<Longrightarrow>
     trace w' = trace w @ [Ev (Read (File d n)) (Some e)]"
  by (drule read_Inl) simp

lemma read_Inr_tr:
  "File_Read (Handle (File d n)) k w = (Inr got, w') \<Longrightarrow>
     trace w' = trace w @ [Ev (Read (File d n)) None]"
  by (drule read_Inr) simp

lemma sync_tr:
  "File_Sync (Handle nd) w = (r, w') \<Longrightarrow> trace w' = trace w @ [Ev (Sync nd) r]"
  by (drule sync_eq) simp

lemma close_tr:
  "File_Close (Handle nd) w = (r, w') \<Longrightarrow> trace w' = trace w @ [Ev (Close nd) r]"
  by (drule close_eq) simp

lemma rename_tr:
  "os_Rename (d, a) (d', b) w = (r, w') \<Longrightarrow>
     trace w' = trace w @ [Ev (Rename (File d a) (File d' b)) r]"
  by (cases r) (auto dest!: rename_Some rename_None)

lemma syncDir_Some_tr:
  "syncDir d w = (Some e, w') \<Longrightarrow>
     trace w' = trace w @ [Ev (Open (Dir d)) (Some e)]
     \<or> (\<exists>c. trace w' = trace w @ [Ev (Open (Dir d)) None, Ev (Sync (Dir d)) (Some e),
                                   Ev (Close (Dir d)) c])"
  by (drule syncDir_Some) auto

lemma syncDir_None_tr:
  "syncDir d w = (None, w') \<Longrightarrow>
     \<exists>s c. trace w' = trace w @ [Ev (Open (Dir d)) None, Ev (Sync (Dir d)) s, Ev (Close (Dir d)) c]"
  by (drule syncDir_None) auto

lemmas call_traces = open_rd_Inl_tr open_rd_Inr_tr create_Inl_tr create_Inr_tr write_tr
  read_Inl_tr read_Inr_tr sync_tr close_tr rename_tr syncDir_Some_tr syncDir_None_tr

lemma performed_simps:
  "performed c [] = False"
  "performed c (Ev c' r # evs) = (c' = c \<or> performed c evs)"
  by (auto simp: performed_def)

lemma before_simps:
  "before c [] = []"
  "before c (Ev c' r # evs) = (if c' = c then [] else Ev c' r # before c evs)"
  by (auto simp: before_def)

lemmas order_simps = performed_simps before_simps new_events_def marker_not_found_def
  filepath_Join_def

lemma quiet_Suc: "quiet (Suc n) w = (peek (faults w) = None \<and> quiet n (pop w))"
  by (cases "faults w") (simp_all add: quiet_def peek_def)

lemma compareTypes_iff:
  "compareTypes A B = (A = B \<or> {A, B} = {goqueStack, goqueQueue})"
  unfolding compareTypes_def doubleton_eq_iff by auto

subsection \<open>The paths through checkGoqueType\<close>

text \<open>
  Every run takes one of ten paths: the hard failure of the first open, the seven
  ways through the creation of the marker, and the two ways through the reading of
  it.
\<close>

lemma checkGoqueType_paths:
  obtains
    (hard) e w1 where
      "os_OpenFile (d, ''GOQUE'') [O_RDONLY] w = (Inl e, w1)" "\<not> IsNotExist e"
      "checkGoqueType d gt w = ((False, Some e), w1)"
  | (create_fail) e0 w1 e w2 where
      "os_OpenFile (d, ''GOQUE'') [O_RDONLY] w = (Inl e0, w1)" "IsNotExist e0"
      "os_OpenFile (d, ''GOQUE.tmp'') [O_RDWR, O_CREATE] w1 = (Inl e, w2)"
      "checkGoqueType d gt w = ((False, Some e), w2)"
  | (write_fail) e0 w1 f w2 k e w3 c w4 where
      "os_OpenFile (d, ''GOQUE'') [O_RDONLY] w = (Inl e0, w1)" "IsNotExist e0"
      "os_OpenFile (d, ''GOQUE.tmp'') [O_RDWR, O_CREATE] w1 = (Inr f, w2)"
      "File_Write f [gt] w2 = ((k, Some e), w3)"
      "File_Close f w3 = (c, w4)"
      "checkGoqueType d gt w = ((False, Some e), w4)"
  | (sync_fail) e0 w1 f w2 k w3 e w4 c w5 where
      "os_OpenFile (d, ''GOQUE'') [O_RDONLY] w = (Inl e0, w1)" "IsNotExist e0"
      "os_OpenFile (d, ''GOQUE.tmp'') [O_RDWR, O_CREATE] w1 = (Inr f, w2)"
      "File_Write f [gt] w2 = ((k, None), w3)"
      "File_Sync f w3 = (Some e, w4)"
      "File_Close f w4 = (c, w5)"
      "checkGoqueType d gt w = ((False, Some e), w5)"
  | (close_fail) e0 w1 f w2 k w3 w4 e w5 where
      "os_OpenFile (d, ''GOQUE'') [O_RDONLY] w = (Inl e0, w1)" "IsNotExist e0"
      "os_OpenFile (d, ''GOQUE.tmp'') [O_RDWR, O_CREATE] w1 = (Inr f, w2)"
      "File_Write f [gt] w2 = ((k, None), w3)"
      "File_Sync f w3 = (None, w4)"
      "File_Close f w4 = (Some e, w5)"
      "checkGoqueType d gt w = ((False, Some e), w5)"
  | (rename_fail) e0 w1 f w2 k w3 w4 w5 e w6 where
      "os_OpenFile (d, ''GOQUE'') [O_RDONLY] w = (Inl e0, w1)" "IsNotExist e0"
      "os_OpenFile (d, ''GOQUE.tmp'') [O_RDWR, O_CREATE] w1 = (Inr f, w2)"
      "File_Write f [gt] w2 = ((k, None), w3)"
      "File_Sync f w3 = (None, w4)"
      "File_Close f w4 = (None, w5)"
      "os_Rename (d, ''GOQUE.tmp'') (d, ''GOQUE'') w5 = (Some e, w6)"
      "checkGoqueType d gt w = ((False, Some e), w6)"
  | (syncdir_fail) e0 w1 f w2 k w3 w4 w5 w6 e w7 where
      "os_OpenFile (d, ''GOQUE'') [O_RDONLY] w = (Inl e0, w1)" "IsNotExist e0"
      "os_OpenFile (d, ''GOQUE.tmp'') [O_RDWR, O_CREATE] w1 = (Inr f, w2)"
      "File_Write f [gt] w2 = ((k, None), w3)"
      "File_Sync f w3 = (None, w4)"
      "File_Close f w4 = (None, w5)"
      "os_Rename (d, ''GOQUE.tmp'') (d, ''GOQUE'') w5 = (None, w6)"
      "syncDir d w6 = (Some e, w7)"
      "checkGoqueType d gt w = ((False, Some e), w7)"
  | (created) e0 w1 f w2 k w3 w4 w5 w6 w7 where
      "os_OpenFile (d, ''GOQUE'') [O_RDONLY] w = (Inl e0, w1)" "IsNotExist e0"
      "os_OpenFile (d, ''GOQUE.tmp'') [O_RDWR, O_CREATE] w1 = (Inr f, w2)"
      "File_Write f [gt] w2 = ((k, None), w3)"
      "File_Sync f w3 = (None, w4)"
      "File_Close f w4 = (None, w5)"
      "os_Rename (d, ''GOQUE.tmp'') (d, ''GOQUE'') w5 = (None, w6)"
      "syncDir d w6 = (None, w7)"
      "checkGoqueType d gt w = ((True, None), w7)"
  | (read_fail) f w1 e w2 c w3 where
      "os_OpenFile (d, ''GOQUE'') [O_RDONLY] w = (Inr f, w1)"
      "File_Read f (Suc 0) w1 = (Inl e, w2)"
      "File_Close f w2 = (c, w3)"
      "checkGoqueType d gt w = ((False, Some e), w3)"
  | (compared) f w1 got w2 c w3 where
      "os_OpenFile (d, ''GOQUE'') [O_RDONLY] w = (Inr f, w1)"
      "File_Read f (Suc 0) w1 = (Inr got, w2)"
      "File_Close f w2 = (c, w3)"
      "checkGoqueType d gt w = ((compareTypes (hd (got @ drop (length got) [0])) gt, None), w3)"
proof -
  note defs = checkGoqueType_def filepath_Join_def Let_def
  obtain r1 w1 where p: "os_OpenFile (d, ''GOQUE'') [O_RDONLY] w = (r1, w1)"
    by (metis surj_pair)
  show thesis
  proof (cases r1)
    case (Inr f)
    obtain r2 w2 where rd: "File_Read f (Suc 0) w1 = (r2, w2)" by (metis surj_pair)
    obtain c w3 where cl: "File_Close f w2 = (c, w3)" by (metis surj_pair)
    show thesis
    proof (cases r2)
      case (Inl e)
      show thesis
        by (rule read_fail [of f w1 e w2 c w3]) (use p rd cl Inr Inl in \<open>simp_all add: defs\<close>)
    next
      case inr: (Inr got)
      show thesis
        by (rule compared [of f w1 got w2 c w3]) (use p rd cl Inr inr in \<open>simp_all add: defs\<close>)
    qed
  next
    case (Inl e0)
    show thesis
    proof (cases "IsNotExist e0")
      case False
      show thesis
        by (rule hard [of e0 w1]) (use p Inl False in \<open>simp_all add: defs\<close>)
    next
      case True
      obtain r2 w2 where cr: "os_OpenFile (d, ''GOQUE.tmp'') [O_RDWR, O_CREATE] w1 = (r2, w2)"
        by (metis surj_pair)
      show thesis
      proof (cases r2)
        case inl: (Inl e)
        show thesis
          by (rule create_fail [of e0 w1 e w2]) (use p Inl True cr inl in \<open>simp_all add: defs\<close>)
      next
        case (Inr f)
        obtain k r3 w3 where wr: "File_Write f [gt] w2 = ((k, r3), w3)" by (metis surj_pair)
        show thesis
        proof (cases r3)
          case (Some e)
          obtain c w4 where cl: "File_Close f w3 = (c, w4)" by (metis surj_pair)
          show thesis
            by (rule write_fail [of e0 w1 f w2 k e w3 c w4])
              (use p Inl True cr Inr wr Some cl in \<open>simp_all add: defs\<close>)
        next
          case None
          obtain r4 w4 where sy: "File_Sync f w3 = (r4, w4)" by (metis surj_pair)
          obtain r5 w5 where cl: "File_Close f w4 = (r5, w5)" by (metis surj_pair)
          show thesis
          proof (cases r4)
            case (Some e)
            show thesis
              by (rule sync_fail [of e0 w1 f w2 k w3 e w4 r5 w5])
                (use p Inl True cr Inr wr None sy Some cl in \<open>simp_all add: defs\<close>)
          next
            case sync_ok: None
            show thesis
            proof (cases r5)
              case (Some e)
              show thesis
                by (rule close_fail [of e0 w1 f w2 k w3 w4 e w5])
                  (use p Inl True cr Inr wr None sy sync_ok cl Some in \<open>simp_all add: defs\<close>)
            next
              case close_ok: None
              obtain r6 w6 where rn: "os_Rename (d, ''GOQUE.tmp'') (d, ''GOQUE'') w5 = (r6, w6)"
                by (metis surj_pair)
              obtain r7 w7 where sd: "syncDir d w6 = (r7, w7)" by (metis surj_pair)
              show thesis
              proof (cases r6)
                case (Some e)
                show thesis
                  by (rule rename_fail [of e0 w1 f w2 k w3 w4 w5 e w6])
                    (use p Inl True cr Inr wr None sy sync_ok cl close_ok rn Some
                      in \<open>simp_all add: defs\<close>)
              next
                case rename_ok: None
                show thesis
                proof (cases r7)
                  case (Some e)
                  show thesis
                    by (rule syncdir_fail [of e0 w1 f w2 k w3 w4 w5 w6 e w7])
                      (use p Inl True cr Inr wr None sy sync_ok cl close_ok rn rename_ok sd Some
                        in \<open>simp_all add: defs\<close>)
                next
                  case dir_ok: None
                  show thesis
                    by (rule created [of e0 w1 f w2 k w3 w4 w5 w6 w7])
                      (use p Inl True cr Inr wr None sy sync_ok cl close_ok rn rename_ok sd dir_ok
                        in \<open>simp_all add: defs\<close>)
                qed
              qed
            qed
          qed
        qed
      qed
    qed
  qed
qed

subsection \<open>The order of the calls\<close>

text \<open>
  The events after the first open, read against the steps of the creation path: what
  has happened before a step is made for the first time.
\<close>

lemma order_write:
  "performed (Write (File d ''GOQUE.tmp'') [gt]) (tl (new_events w (snd (checkGoqueType d gt w))))
      \<longrightarrow> before (Write (File d ''GOQUE.tmp'') [gt]) (tl (new_events w (snd (checkGoqueType d gt w))))
          = [Ev (Create (File d ''GOQUE.tmp'')) None]"
  by (cases rule: checkGoqueType_paths [of d w gt])
     (auto simp: order_simps dest!: call_traces)

lemma order_flush:
  "performed (Sync (File d ''GOQUE.tmp'')) (tl (new_events w (snd (checkGoqueType d gt w))))
      \<longrightarrow> before (Sync (File d ''GOQUE.tmp'')) (tl (new_events w (snd (checkGoqueType d gt w))))
          = [Ev (Create (File d ''GOQUE.tmp'')) None, Ev (Write (File d ''GOQUE.tmp'') [gt]) None]"
  by (cases rule: checkGoqueType_paths [of d w gt])
     (auto simp: order_simps dest!: call_traces)

lemma order_close:
  "performed (Close (File d ''GOQUE.tmp'')) (tl (new_events w (snd (checkGoqueType d gt w))))
      \<longrightarrow> (\<exists>r. before (Close (File d ''GOQUE.tmp'')) (tl (new_events w (snd (checkGoqueType d gt w))))
                = [Ev (Create (File d ''GOQUE.tmp'')) None, Ev (Write (File d ''GOQUE.tmp'') [gt]) None,
                   Ev (Sync (File d ''GOQUE.tmp'')) r])
        \<or> (\<exists>e. before (Close (File d ''GOQUE.tmp'')) (tl (new_events w (snd (checkGoqueType d gt w))))
                = [Ev (Create (File d ''GOQUE.tmp'')) None,
                   Ev (Write (File d ''GOQUE.tmp'') [gt]) (Some e)])"
  by (cases rule: checkGoqueType_paths [of d w gt])
     (auto simp: order_simps dest!: call_traces)

lemma order_rename:
  "performed (Rename (File d ''GOQUE.tmp'') (File d ''GOQUE''))
        (tl (new_events w (snd (checkGoqueType d gt w))))
      \<longrightarrow> before (Rename (File d ''GOQUE.tmp'') (File d ''GOQUE''))
            (tl (new_events w (snd (checkGoqueType d gt w))))
          = [Ev (Create (File d ''GOQUE.tmp'')) None, Ev (Write (File d ''GOQUE.tmp'') [gt]) None,
             Ev (Sync (File d ''GOQUE.tmp'')) None, Ev (Close (File d ''GOQUE.tmp'')) None]"
  by (cases rule: checkGoqueType_paths [of d w gt])
     (auto simp: order_simps dest!: call_traces)

lemma order_dir_sync:
  "performed (Sync (Dir d)) (tl (new_events w (snd (checkGoqueType d gt w))))
      \<longrightarrow> before (Sync (Dir d)) (tl (new_events w (snd (checkGoqueType d gt w))))
          = [Ev (Create (File d ''GOQUE.tmp'')) None, Ev (Write (File d ''GOQUE.tmp'') [gt]) None,
             Ev (Sync (File d ''GOQUE.tmp'')) None, Ev (Close (File d ''GOQUE.tmp'')) None,
             Ev (Rename (File d ''GOQUE.tmp'') (File d ''GOQUE'')) None, Ev (Open (Dir d)) None]"
  by (cases rule: checkGoqueType_paths [of d w gt])
     (auto simp: order_simps dest!: call_traces)

lemma order_complete:
  "marker_not_found d w \<and> snd (fst (checkGoqueType d gt w)) = None
      \<longrightarrow> map call_of (tl (new_events w (snd (checkGoqueType d gt w))))
          = [Create (File d ''GOQUE.tmp''), Write (File d ''GOQUE.tmp'') [gt],
             Sync (File d ''GOQUE.tmp''), Close (File d ''GOQUE.tmp''),
             Rename (File d ''GOQUE.tmp'') (File d ''GOQUE''),
             Open (Dir d), Sync (Dir d), Close (Dir d)]"
  by (cases rule: checkGoqueType_paths [of d w gt])
     (auto simp: order_simps dest!: call_traces)

lemma quiet_8:
  "quiet 8 w \<Longrightarrow> peek (faults w) = None \<and> peek (tl (faults w)) = None
     \<and> peek (tl (tl (faults w))) = None \<and> peek (tl (tl (tl (faults w)))) = None
     \<and> peek (tl (tl (tl (tl (faults w))))) = None
     \<and> peek (tl (tl (tl (tl (tl (faults w)))))) = None
     \<and> peek (tl (tl (tl (tl (tl (tl (faults w))))))) = None
     \<and> peek (tl (tl (tl (tl (tl (tl (tl (faults w)))))))) = None"
  by (simp add: eval_nat_numeral quiet_Suc)

subsection \<open>The claims\<close>

text \<open>
  C6: whenever checkGoqueType returns a non-nil error, the boolean it returns with it
  is false; it returns true only together with a nil error.
\<close>

theorem checkGoqueType_error_false:
  "(snd (fst (checkGoqueType dataDir gt w)) \<noteq> None \<longrightarrow> \<not> fst (fst (checkGoqueType dataDir gt w)))
   \<and> (fst (fst (checkGoqueType dataDir gt w)) \<longrightarrow> snd (fst (checkGoqueType dataDir gt w)) = None)"
  by (auto simp: checkGoqueType_def Let_def split: prod.splits sum.splits option.splits if_splits)

theorem checkGoqueType_error_false_witness:
  "snd (fst (checkGoqueType ''data'' 1 (mkWorld Map.empty [None, Some EOF]))) \<noteq> None
   \<and> \<not> fst (fst (checkGoqueType ''data'' 1 (mkWorld Map.empty [None, Some EOF])))
   \<and> fst (fst (checkGoqueType ''data'' 1 (mkWorld Map.empty [])))
   \<and> snd (fst (checkGoqueType ''data'' 1 (mkWorld Map.empty []))) = None"
  using checkGoqueType_error_false [of "''data''" 1 "mkWorld Map.empty [None, Some EOF]"]
    checkGoqueType_error_false [of "''data''" 1 "mkWorld Map.empty []"]
  by (simp add: run_defs)

text \<open>
  C1: when the marker file is there and holds a defined tag \<open>A\<close>, and a defined tag
  \<open>B\<close> is requested, and neither the open nor the read meets a fault, the call
  returns true with a nil error exactly when \<open>A = B\<close> or the two tags are the stack
  and the queue, and false with a nil error for every other pair.
\<close>

theorem checkGoqueType_compatibility:
  assumes "lookup w dataDir ''GOQUE'' = Some (A # rest)"
    and "A \<in> validTags" and "B \<in> validTags"
    and "quiet 2 w"
  shows "fst (checkGoqueType dataDir B w) = (A = B \<or> {A, B} = {goqueStack, goqueQueue}, None)"
proof -
  from assms(4) have q: "peek (faults w) = None" "peek (tl (faults w)) = None"
    by (simp_all add: numeral_2_eq_2 quiet_Suc)
  have "fst (checkGoqueType dataDir B w) = (compareTypes A B, None)"
    using assms(1) q
    by (cases rule: checkGoqueType_paths [of dataDir w B]) (auto dest!: call_facts)
  then show ?thesis
    by (simp only: compareTypes_iff)
qed

theorem checkGoqueType_compatibility_witness:
  "lookup (mkWorld [''GOQUE'' \<mapsto> [0]] []) ''data'' ''GOQUE'' = Some (0 # [])
   \<and> (0 :: goqueType) \<in> validTags \<and> (1 :: goqueType) \<in> validTags
   \<and> quiet 2 (mkWorld [''GOQUE'' \<mapsto> [0]] [])
   \<and> fst (checkGoqueType ''data'' 1 (mkWorld [''GOQUE'' \<mapsto> [0]] [])) = (True, None)"
  using checkGoqueType_compatibility [of "mkWorld [''GOQUE'' \<mapsto> [0]] []" "''data''" 0 "[]" 1]
  by (simp add: run_defs validTags_def quiet_def)

text \<open>
  C2, as stated, fails: a left-over \<^verbatim>\<open>GOQUE.tmp\<close> of two bytes is opened without
  truncation, one byte of it is overwritten, and the marker it is renamed to holds
  two bytes.
\<close>

theorem stale_temp_counterexample:
  "lookup (mkWorld [''GOQUE.tmp'' \<mapsto> [9, 9]] []) ''data'' ''GOQUE'' = None
   \<and> fst (checkGoqueType ''data'' 1 (mkWorld [''GOQUE.tmp'' \<mapsto> [9, 9]] [])) = (True, None)
   \<and> lookup (snd (checkGoqueType ''data'' 1 (mkWorld [''GOQUE.tmp'' \<mapsto> [9, 9]] [])))
        ''data'' ''GOQUE'' = Some [1, 9]"
  by (simp add: run_defs)

text \<open>
  C2, amended: for a directory with no marker file whose \<^verbatim>\<open>GOQUE.tmp\<close>, if there
  is one, holds at most one byte, a call that returns a nil error returns true and
  leaves a marker file holding exactly the byte of the requested tag.
\<close>

theorem checkGoqueType_first_use:
  assumes "lookup w dataDir ''GOQUE'' = None"
    and "short_temp w dataDir"
    and "snd (fst (checkGoqueType dataDir gt w)) = None"
  shows "fst (checkGoqueType dataDir gt w) = (True, None)
     \<and> lookup (snd (checkGoqueType dataDir gt w)) dataDir ''GOQUE'' = Some [gt]"
  using assms
  by (cases rule: checkGoqueType_paths [of dataDir w gt])
     (auto simp: short_temp_def dest!: call_facts split: option.splits if_splits)

theorem checkGoqueType_first_use_witness:
  "lookup (mkWorld Map.empty []) ''data'' ''GOQUE'' = None
   \<and> short_temp (mkWorld Map.empty []) ''data''
   \<and> snd (fst (checkGoqueType ''data'' 1 (mkWorld Map.empty []))) = None
   \<and> fst (checkGoqueType ''data'' 1 (mkWorld Map.empty [])) = (True, None)
   \<and> lookup (snd (checkGoqueType ''data'' 1 (mkWorld Map.empty []))) ''data'' ''GOQUE'' = Some [1]"
  using checkGoqueType_first_use [of "mkWorld Map.empty []" "''data''" 1]
  by (simp add: run_defs short_temp_def)

text \<open>
  C3, as stated, fails: the byte 7 is no defined tag, and a request for the value 7
  on a marker holding 7 is answered true.
\<close>

theorem undecoded_tag_counterexample:
  "lookup (mkWorld [''GOQUE'' \<mapsto> [7]] []) ''data'' ''GOQUE'' = Some [7]
   \<and> (7 :: goqueType) \<notin> validTags
   \<and> fst (checkGoqueType ''data'' 7 (mkWorld [''GOQUE'' \<mapsto> [7]] [])) = (True, None)"
  by (simp add: run_defs validTags_def)

text \<open>
  C3, amended: when the marker file holds a byte that is no defined tag, every
  request for a value other than that byte (every defined tag among them) is
  answered with false, whatever faults the calls meet, provided the host does not
  report the marker file as missing.
\<close>

theorem undecoded_tag_incompatible:
  assumes "lookup w dataDir ''GOQUE'' = Some (b # rest)"
    and "b \<notin> validTags" and "gt \<noteq> b" and "truthful w"
  shows "\<not> fst (fst (checkGoqueType dataDir gt w))"
  using assms
  by (cases rule: checkGoqueType_paths [of dataDir w gt])
     (auto simp: compareTypes_def truthful_def validTags_def dest!: call_facts)

theorem undecoded_tag_incompatible_witness:
  "lookup (mkWorld [''GOQUE'' \<mapsto> [7]] []) ''data'' ''GOQUE'' = Some (7 # [])
   \<and> (7 :: goqueType) \<notin> validTags \<and> (1 :: goqueType) \<noteq> 7
   \<and> truthful (mkWorld [''GOQUE'' \<mapsto> [7]] [])
   \<and> \<not> fst (fst (checkGoqueType ''data'' 1 (mkWorld [''GOQUE'' \<mapsto> [7]] [])))"
  using undecoded_tag_incompatible [of "mkWorld [''GOQUE'' \<mapsto> [7]] []" "''data''" 7 "[]" 1]
  by (simp add: run_defs validTags_def truthful_def)

text \<open>
  C5: the temporary file is created exactly when the attempt to open the marker
  fails with a not-found error, and no writing call is made otherwise; when the
  open fails with any other error, that error is returned with false, after the
  one open, with every directory as it was.
\<close>

theorem creation_only_when_not_found:
  "performed (Create (File dataDir ''GOQUE.tmp'')) (new_events w (snd (checkGoqueType dataDir gt w)))
     = marker_not_found dataDir w
   \<and> (list_ex (\<lambda>e. is_write (call_of e)) (new_events w (snd (checkGoqueType dataDir gt w)))
        \<longrightarrow> marker_not_found dataDir w)
   \<and> (\<forall>e. fst (os_OpenFile (filepath_Join dataDir ''GOQUE'') [O_RDONLY] w) = Inl e \<and> \<not> IsNotExist e
        \<longrightarrow> fst (checkGoqueType dataDir gt w) = (False, Some e)
          \<and> dirs (snd (checkGoqueType dataDir gt w)) = dirs w
          \<and> new_events w (snd (checkGoqueType dataDir gt w))
              = [Ev (Open (File dataDir ''GOQUE'')) (Some e)])"
  by (cases rule: checkGoqueType_paths [of dataDir w gt])
     (auto simp: performed_def marker_not_found_def new_events_def filepath_Join_def
        dest!: call_facts)

theorem creation_only_when_not_found_witness:
  "list_ex (\<lambda>e. is_write (call_of e))
      (new_events (mkWorld Map.empty []) (snd (checkGoqueType ''data'' 1 (mkWorld Map.empty []))))
   \<and> marker_not_found ''data'' (mkWorld Map.empty [])
   \<and> fst (os_OpenFile (filepath_Join ''data'' ''GOQUE'') [O_RDONLY] (mkWorld Map.empty [Some ErrPermission]))
       = Inl ErrPermission
   \<and> \<not> IsNotExist ErrPermission
   \<and> fst (checkGoqueType ''data'' 1 (mkWorld Map.empty [Some ErrPermission])) = (False, Some ErrPermission)
   \<and> dirs (snd (checkGoqueType ''data'' 1 (mkWorld Map.empty [Some ErrPermission])))
       = dirs (mkWorld Map.empty [Some ErrPermission])
   \<and> new_events (mkWorld Map.empty [Some ErrPermission])
        (snd (checkGoqueType ''data'' 1 (mkWorld Map.empty [Some ErrPermission])))
       = [Ev (Open (File ''data'' ''GOQUE'')) (Some ErrPermission)]"
  using creation_only_when_not_found [of "''data''" "mkWorld Map.empty []" 1]
    creation_only_when_not_found [of "''data''" "mkWorld Map.empty [Some ErrPermission]" 1]
  by (simp add: run_defs marker_not_found_def)

text \<open>
  C8: when the marker file is there (and the host does not report it missing), the
  call leaves every directory and every file as it was and makes no creating,
  writing or renaming call.
\<close>

theorem reopen_is_read_only:
  assumes "lookup w dataDir ''GOQUE'' = Some bs" and "truthful w"
  shows "dirs (snd (checkGoqueType dataDir gt w)) = dirs w
     \<and> filter (\<lambda>e. is_write (call_of e)) (new_events w (snd (checkGoqueType dataDir gt w))) = []"
  using assms
  by (cases rule: checkGoqueType_paths [of dataDir w gt])
     (auto simp: new_events_def truthful_def dest!: call_facts)

theorem reopen_is_read_only_witness:
  "lookup (mkWorld [''GOQUE'' \<mapsto> [1]] []) ''data'' ''GOQUE'' = Some [1]
   \<and> truthful (mkWorld [''GOQUE'' \<mapsto> [1]] [])
   \<and> dirs (snd (checkGoqueType ''data'' 0 (mkWorld [''GOQUE'' \<mapsto> [1]] [])))
       = dirs (mkWorld [''GOQUE'' \<mapsto> [1]] [])
   \<and> filter (\<lambda>e. is_write (call_of e))
        (new_events (mkWorld [''GOQUE'' \<mapsto> [1]] [])
           (snd (checkGoqueType ''data'' 0 (mkWorld [''GOQUE'' \<mapsto> [1]] [])))) = []"
  using reopen_is_read_only [of "mkWorld [''GOQUE'' \<mapsto> [1]] []" "''data''" "[1]" 0]
  by (simp add: run_defs truthful_def)

text \<open>
  C4: syncDir returns nil exactly when the directory was opened and the flush either
  completed or reported that it is not supported; an error of the open, and any
  other error of the flush, is returned as it is.
\<close>

theorem syncDir_result:
  "fst (syncDir path w) =
     (case os_Open path w of
        (Inl e, w1) \<Rightarrow> Some e
      | (Inr f, w1) \<Rightarrow>
          (case fst (File_Sync f w1) of
             None \<Rightarrow> None
           | Some e \<Rightarrow> if sync_unsupported e then None else Some e))"
  by (simp add: syncDir_def sync_unsupported_iff Let_def split: prod.splits sum.splits option.splits)

text \<open>
  C7, as stated, fails: when every step up to the rename succeeds and the directory
  sync fails, the error is returned and the marker file is there under its final
  name.
\<close>

theorem dir_sync_failure_counterexample:
  "lookup (mkWorld Map.empty [None, None, None, None, None, None, Some (Errno 5)]) ''data'' ''GOQUE'' = None
   \<and> fst (checkGoqueType ''data'' 1
        (mkWorld Map.empty [None, None, None, None, None, None, Some (Errno 5)]))
       = (False, Some (Errno 5))
   \<and> lookup (snd (checkGoqueType ''data'' 1
        (mkWorld Map.empty [None, None, None, None, None, None, Some (Errno 5)]))) ''data'' ''GOQUE''
       = Some [1]"
  by (simp add: run_defs)

text \<open>
  C7, amended: on a directory with no marker file, a call that returns an error
  without having renamed (the failure of the first open, of the creation of the
  temporary file, of the write, the flush, the close or the rename) leaves no file
  under the name \<^verbatim>\<open>GOQUE\<close> and every file other than \<^verbatim>\<open>GOQUE.tmp\<close> as it was; a
  call that returns an error after the rename has failed in the directory sync, and
  the marker file is in place, the temporary name gone.
\<close>

theorem creation_failure_state:
  assumes "lookup w dataDir ''GOQUE'' = None"
    and "snd (fst (checkGoqueType dataDir gt w)) = Some err"
  shows "(\<not> succeeded (Rename (File dataDir ''GOQUE.tmp'') (File dataDir ''GOQUE''))
              (new_events w (snd (checkGoqueType dataDir gt w)))
          \<longrightarrow> lookup (snd (checkGoqueType dataDir gt w)) dataDir ''GOQUE'' = None
            \<and> (\<forall>d n. (d, n) \<noteq> (dataDir, ''GOQUE.tmp'')
                  \<longrightarrow> lookup (snd (checkGoqueType dataDir gt w)) d n = lookup w d n))
     \<and> (succeeded (Rename (File dataDir ''GOQUE.tmp'') (File dataDir ''GOQUE''))
              (new_events w (snd (checkGoqueType dataDir gt w)))
          \<longrightarrow> (Ev (Open (Dir dataDir)) (Some err) \<in> set (new_events w (snd (checkGoqueType dataDir gt w)))
               \<or> Ev (Sync (Dir dataDir)) (Some err) \<in> set (new_events w (snd (checkGoqueType dataDir gt w))))
            \<and> lookup (snd (checkGoqueType dataDir gt w)) dataDir ''GOQUE''
                = Some (gt # drop 1 (case lookup w dataDir ''GOQUE.tmp'' of None \<Rightarrow> [] | Some old \<Rightarrow> old))
            \<and> lookup (snd (checkGoqueType dataDir gt w)) dataDir ''GOQUE.tmp'' = None)"
  using assms
  by (cases rule: checkGoqueType_paths [of dataDir w gt])
     (auto simp: succeeded_def new_events_def dest!: call_facts split: option.splits if_splits)

theorem creation_failure_state_witness:
  "lookup (mkWorld Map.empty [None, None, Some (Errno 5)]) ''data'' ''GOQUE'' = None
   \<and> snd (fst (checkGoqueType ''data'' 1 (mkWorld Map.empty [None, None, Some (Errno 5)]))) = Some (Errno 5)
   \<and> \<not> succeeded (Rename (File ''data'' ''GOQUE.tmp'') (File ''data'' ''GOQUE''))
        (new_events (mkWorld Map.empty [None, None, Some (Errno 5)]) (snd (checkGoqueType ''data'' 1 (mkWorld Map.empty [None, None, Some (Errno 5)]))))
   \<and> lookup (snd (checkGoqueType ''data'' 1 (mkWorld Map.empty [None, None, Some (Errno 5)]))) ''data'' ''GOQUE'' = None
   \<and> lookup (snd (checkGoqueType ''data'' 1 (mkWorld Map.empty [None, None, Some (Errno 5)]))) ''data'' ''GOQUE.tmp'' = Some []
   \<and> snd (fst (checkGoqueType ''data'' 1 (mkWorld Map.empty [None, None, None, None, None, None, Some (Errno 5)]))) = Some (Errno 5)
   \<and> succeeded (Rename (File ''data'' ''GOQUE.tmp'') (File ''data'' ''GOQUE''))
        (new_events (mkWorld Map.empty [None, None, None, None, None, None, Some (Errno 5)]) (snd (checkGoqueType ''data'' 1 (mkWorld Map.empty [None, None, None, None, None, None, Some (Errno 5)]))))
   \<and> lookup (snd (checkGoqueType ''data'' 1 (mkWorld Map.empty [None, None, None, None, None, None, Some (Errno 5)]))) ''data'' ''GOQUE.tmp'' = None"
  using creation_failure_state [of "mkWorld Map.empty [None, None, Some (Errno 5)]" "''data''" 1 "Errno 5"]
    creation_failure_state [of "mkWorld Map.empty [None, None, None, None, None, None, Some (Errno 5)]" "''data''" 1 "Errno 5"]
  by (simp add: run_defs succeeded_def)

text \<open>
  C9: in every run, each step of the creation path is made only right after all the
  steps before it have succeeded, in the order write, flush, close, rename,
  directory sync (a close also follows a failed write or flush, on the way out);
  and a run through the creation path that returns a nil error has made every one
  of them, in that order, with nothing in between.
\<close>

theorem creation_order:
  "(performed (Write (File d ''GOQUE.tmp'') [gt]) (tl (new_events w (snd (checkGoqueType d gt w))))
      \<longrightarrow> before (Write (File d ''GOQUE.tmp'') [gt]) (tl (new_events w (snd (checkGoqueType d gt w))))
          = [Ev (Create (File d ''GOQUE.tmp'')) None])
   \<and> (performed (Sync (File d ''GOQUE.tmp'')) (tl (new_events w (snd (checkGoqueType d gt w))))
      \<longrightarrow> before (Sync (File d ''GOQUE.tmp'')) (tl (new_events w (snd (checkGoqueType d gt w))))
          = [Ev (Create (File d ''GOQUE.tmp'')) None, Ev (Write (File d ''GOQUE.tmp'') [gt]) None])
   \<and> (performed (Close (File d ''GOQUE.tmp'')) (tl (new_events w (snd (checkGoqueType d gt w))))
      \<longrightarrow> (\<exists>r. before (Close (File d ''GOQUE.tmp'')) (tl (new_events w (snd (checkGoqueType d gt w))))
                = [Ev (Create (File d ''GOQUE.tmp'')) None, Ev (Write (File d ''GOQUE.tmp'') [gt]) None,
                   Ev (Sync (File d ''GOQUE.tmp'')) r])
        \<or> (\<exists>e. before (Close (File d ''GOQUE.tmp'')) (tl (new_events w (snd (checkGoqueType d gt w))))
                = [Ev (Create (File d ''GOQUE.tmp'')) None,
                   Ev (Write (File d ''GOQUE.tmp'') [gt]) (Some e)]))
   \<and> (performed (Rename (File d ''GOQUE.tmp'') (File d ''GOQUE''))
        (tl (new_events w (snd (checkGoqueType d gt w))))
      \<longrightarrow> before (Rename (File d ''GOQUE.tmp'') (File d ''GOQUE''))
            (tl (new_events w (snd (checkGoqueType d gt w))))
          = [Ev (Create (File d ''GOQUE.tmp'')) None, Ev (Write (File d ''GOQUE.tmp'') [gt]) None,
             Ev (Sync (File d ''GOQUE.tmp'')) None, Ev (Close (File d ''GOQUE.tmp'')) None])
   \<and> (performed (Sync (Dir d)) (tl (new_events w (snd (checkGoqueType d gt w))))
      \<longrightarrow> before (Sync (Dir d)) (tl (new_events w (snd (checkGoqueType d gt w))))
          = [Ev (Create (File d ''GOQUE.tmp'')) None, Ev (Write (File d ''GOQUE.tmp'') [gt]) None,
             Ev (Sync (File d ''GOQUE.tmp'')) None, Ev (Close (File d ''GOQUE.tmp'')) None,
             Ev (Rename (File d ''GOQUE.tmp'') (File d ''GOQUE'')) None, Ev (Open (Dir d)) None])
   \<and> (marker_not_found d w \<and> snd (fst (checkGoqueType d gt w)) = None
      \<longrightarrow> map call_of (tl (new_events w (snd (checkGoqueType d gt w))))
          = [Create (File d ''GOQUE.tmp''), Write (File d ''GOQUE.tmp'') [gt],
             Sync (File d ''GOQUE.tmp''), Close (File d ''GOQUE.tmp''),
             Rename (File d ''GOQUE.tmp'') (File d ''GOQUE''),
             Open (Dir d), Sync (Dir d), Close (Dir d)])"
  using order_write [where d = d and gt = gt and w = w]
    order_flush [where d = d and gt = gt and w = w]
    order_close [where d = d and gt = gt and w = w]
    order_rename [where d = d and gt = gt and w = w]
    order_dir_sync [where d = d and gt = gt and w = w]
    order_complete [where d = d and gt = gt and w = w]
  by blast

theorem creation_order_witness:
  "performed (Write (File ''data'' ''GOQUE.tmp'') [1]) (tl (new_events (mkWorld Map.empty []) (snd (checkGoqueType ''data'' 1 (mkWorld Map.empty [])))))
   \<and> performed (Sync (File ''data'' ''GOQUE.tmp'')) (tl (new_events (mkWorld Map.empty []) (snd (checkGoqueType ''data'' 1 (mkWorld Map.empty [])))))
   \<and> performed (Close (File ''data'' ''GOQUE.tmp'')) (tl (new_events (mkWorld Map.empty []) (snd (checkGoqueType ''data'' 1 (mkWorld Map.empty [])))))
   \<and> performed (Rename (File ''data'' ''GOQUE.tmp'') (File ''data'' ''GOQUE'')) (tl (new_events (mkWorld Map.empty []) (snd (checkGoqueType ''data'' 1 (mkWorld Map.empty [])))))
   \<and> performed (Sync (Dir ''data'')) (tl (new_events (mkWorld Map.empty []) (snd (checkGoqueType ''data'' 1 (mkWorld Map.empty [])))))
   \<and> marker_not_found ''data'' (mkWorld Map.empty [])
   \<and> snd (fst (checkGoqueType ''data'' 1 (mkWorld Map.empty []))) = None
   \<and> before (Sync (Dir ''data'')) (tl (new_events (mkWorld Map.empty []) (snd (checkGoqueType ''data'' 1 (mkWorld Map.empty [])))))
       = [Ev (Create (File ''data'' ''GOQUE.tmp'')) None, Ev (Write (File ''data'' ''GOQUE.tmp'') [1]) None,
          Ev (Sync (File ''data'' ''GOQUE.tmp'')) None, Ev (Close (File ''data'' ''GOQUE.tmp'')) None,
          Ev (Rename (File ''data'' ''GOQUE.tmp'') (File ''data'' ''GOQUE'')) None, Ev (Open (Dir ''data'')) None]
   \<and> map call_of (tl (new_events (mkWorld Map.empty []) (snd (checkGoqueType ''data'' 1 (mkWorld Map.empty [])))))
       = [Create (File ''data'' ''GOQUE.tmp''), Write (File ''data'' ''GOQUE.tmp'') [1], Sync (File ''data'' ''GOQUE.tmp''), Close (File ''data'' ''GOQUE.tmp''),
          Rename (File ''data'' ''GOQUE.tmp'') (File ''data'' ''GOQUE''), Open (Dir ''data''), Sync (Dir ''data''), Close (Dir ''data'')]"
  using creation_order [of "''data''" 1 "mkWorld Map.empty []"]
  by (simp add: run_defs performed_def before_def marker_not_found_def)

text \<open>
  C10: the creation path does not look at the value of the requested tag. On a
  directory that is there, with no marker file and no left-over temporary file
  longer than one byte, for every byte \<open>v\<close>: a call that returns a nil error returns
  true, has written exactly \<open>[v]\<close>, and leaves the marker file holding exactly
  \<open>[v]\<close>; and the call does return a nil error when its eight calls meet no fault.
\<close>

theorem creation_takes_any_byte:
  assumes "dirs w dataDir \<noteq> None" and "lookup w dataDir ''GOQUE'' = None"
    and "short_temp w dataDir"
  shows "(snd (fst (checkGoqueType dataDir v w)) = None
          \<longrightarrow> fst (checkGoqueType dataDir v w) = (True, None)
            \<and> lookup (snd (checkGoqueType dataDir v w)) dataDir ''GOQUE'' = Some [v]
            \<and> succeeded (Write (File dataDir ''GOQUE.tmp'') [v])
                 (new_events w (snd (checkGoqueType dataDir v w))))
     \<and> (quiet 8 w \<longrightarrow> snd (fst (checkGoqueType dataDir v w)) = None)"
proof -
  have a: "snd (fst (checkGoqueType dataDir v w)) = None
          \<longrightarrow> fst (checkGoqueType dataDir v w) = (True, None)
            \<and> lookup (snd (checkGoqueType dataDir v w)) dataDir ''GOQUE'' = Some [v]
            \<and> succeeded (Write (File dataDir ''GOQUE.tmp'') [v])
                 (new_events w (snd (checkGoqueType dataDir v w)))"
    using assms
    by (cases rule: checkGoqueType_paths [of dataDir w v])
       (auto simp: short_temp_def succeeded_def new_events_def dest!: call_facts
          split: option.splits if_splits)
  have b: "snd (fst (checkGoqueType dataDir v w)) = None" if "quiet 8 w"
    using assms quiet_8 [OF that]
    by (cases rule: checkGoqueType_paths [of dataDir w v])
       (auto simp: IsNotExist_def dest!: call_facts split: option.splits if_splits)
  from a b show ?thesis by blast
qed

theorem creation_takes_any_byte_witness:
  "dirs (mkWorld Map.empty []) ''data'' \<noteq> None
   \<and> lookup (mkWorld Map.empty []) ''data'' ''GOQUE'' = None
   \<and> short_temp (mkWorld Map.empty []) ''data''
   \<and> quiet 8 (mkWorld Map.empty [])
   \<and> (200 :: goqueType) \<notin> validTags
   \<and> fst (checkGoqueType ''data'' 200 (mkWorld Map.empty [])) = (True, None)
   \<and> lookup (snd (checkGoqueType ''data'' 200 (mkWorld Map.empty []))) ''data'' ''GOQUE'' = Some [200]
   \<and> succeeded (Write (File ''data'' ''GOQUE.tmp'') [200])
        (new_events (mkWorld Map.empty []) (snd (checkGoqueType ''data'' 200 (mkWorld Map.empty []))))"
  using creation_takes_any_byte [of "mkWorld Map.empty []" "''data''" 200]
  by (simp add: run_defs short_temp_def quiet_def validTags_def succeeded_def)

end
